theory Spec2Isabelle
  imports Complex_Main
begin

section \<open>Text primitives of the Python runtime\<close>

text \<open>
  The source is \<^verbatim>\<open>enhanced_code_storage.py\<close>. Python \<^verbatim>\<open>str\<close> values are modelled as
  \<^typ>\<open>string\<close>, one \<^typ>\<open>char\<close> per character, for texts in the ASCII range; Python
  \<^verbatim>\<open>float\<close> values are modelled as \<^typ>\<open>real\<close> numbers (the double the interpreter holds
  is the one nearest to the modelled number), and Python \<^verbatim>\<open>int\<close> values as \<^typ>\<open>int\<close>.
  The character classes below are those of the \<^verbatim>\<open>re\<close> module on ASCII text:
  \<^verbatim>\<open>\w\<close> is a letter, a digit or the underscore, and \<^verbatim>\<open>\s\<close> is one of the ten ASCII
  characters for which \<^verbatim>\<open>str.isspace\<close> holds (tab, line feed, vertical tab, form
  feed, carriage return, the four separators \<^verbatim>\<open>0x1C\<close> to \<^verbatim>\<open>0x1F\<close>, and the blank).
\<close>

definition ascii_uppercase :: string where
  "ascii_uppercase = ''ABCDEFGHIJKLMNOPQRSTUVWXYZ''"

definition ascii_lowercase :: string where
  "ascii_lowercase = ''abcdefghijklmnopqrstuvwxyz''"

definition ascii_digits :: string where
  "ascii_digits = ''0123456789''"

definition is_word_char :: "char \<Rightarrow> bool" where
  "is_word_char c = (c \<in> set (ascii_lowercase @ ascii_uppercase @ ascii_digits @ ''_''))"

definition is_space_char :: "char \<Rightarrow> bool" where
  "is_space_char c =
     (c \<in> set [CHR 0x09, CHR 0x0A, CHR 0x0B, CHR 0x0C, CHR 0x0D,
                CHR 0x1C, CHR 0x1D, CHR 0x1E, CHR 0x1F, CHR 0x20])"

text \<open>\<^verbatim>\<open>str.lower()\<close>: an upper-case letter becomes its lower-case letter, every other
  character stays.\<close>

definition lower_char :: "char \<Rightarrow> char" where
  "lower_char c =
     (case map_of (zip ascii_uppercase ascii_lowercase) c of None \<Rightarrow> c | Some l \<Rightarrow> l)"

definition str_lower :: "string \<Rightarrow> string" where
  "str_lower s = map lower_char s"

text \<open>\<^verbatim>\<open>s.replace(old, new)\<close> for one-character \<^verbatim>\<open>old\<close> and \<^verbatim>\<open>new\<close>.\<close>

definition str_replace_char :: "char \<Rightarrow> char \<Rightarrow> string \<Rightarrow> string" where
  "str_replace_char old new s = map (\<lambda>c. if c = old then new else c) s"

text \<open>The decimal text of an integer, as an f-string prints it.\<close>

definition digit_char :: "nat \<Rightarrow> char" where
  "digit_char d = ascii_digits ! d"

fun str_nat :: "nat \<Rightarrow> string" where
  "str_nat n = (if n < 10 then [digit_char n] else str_nat (n div 10) @ [digit_char (n mod 10)])"

definition str_int :: "int \<Rightarrow> string" where
  "str_int i = (if i < 0 then CHR ''-'' # str_nat (nat (- i)) else str_nat (nat i))"

text \<open>\<^verbatim>\<open>sep.join(parts)\<close>.\<close>

fun str_join :: "string \<Rightarrow> string list \<Rightarrow> string" where
  "str_join sep [] = []"
| "str_join sep [x] = x"
| "str_join sep (x # y # ys) = x @ sep @ str_join sep (y # ys)"

text \<open>\<^verbatim>\<open>xs or []\<close> for an optional list: \<^verbatim>\<open>None\<close> and the empty list are both falsy.\<close>

definition or_empty :: "'a list option \<Rightarrow> 'a list" where
  "or_empty xs = (case xs of None \<Rightarrow> [] | Some ys \<Rightarrow> if ys = [] then [] else ys)"

text \<open>\<^verbatim>\<open>round(x, ndigits)\<close>: the nearest multiple of \<^verbatim>\<open>10 ** -ndigits\<close>, a tie going to
  the even neighbour. The interpreter decides a tie on the exact value of the double it
  holds; what is proved about rounded values below holds for either neighbour at a tie.\<close>

definition round_half_even :: "real \<Rightarrow> int" where
  "round_half_even x =
     (let f = \<lfloor>x\<rfloor>; r = x - of_int f
      in if r < 1 / 2 then f else if 1 / 2 < r then f + 1 else if even f then f else f + 1)"

definition py_round :: "real \<Rightarrow> nat \<Rightarrow> real" where
  "py_round x ndigits = of_int (round_half_even (x * 10 ^ ndigits)) / 10 ^ ndigits"


section \<open>The regular expressions of the analyzer\<close>

text \<open>
  A matcher takes the text and a start index and returns the end index of the match that
  starts there, if there is one. \<^verbatim>\<open>re.findall\<close> scans from index 0: where the pattern
  matches it records the matched text and goes on from the end of the match, elsewhere it
  moves one character on; it stops after trying the index one past the last character.
\<close>

definition word_at :: "string \<Rightarrow> nat \<Rightarrow> bool" where
  "word_at s i = (i < length s \<and> is_word_char (s ! i))"

text \<open>\<^verbatim>\<open>\b\<close>: exactly one of the characters before and after the index is a word
  character (the ends of the text count as non-word).\<close>

definition word_boundary :: "string \<Rightarrow> nat \<Rightarrow> bool" where
  "word_boundary s i = ((0 < i \<and> word_at s (i - 1)) \<noteq> word_at s i)"

definition literal_at :: "string \<Rightarrow> string \<Rightarrow> nat \<Rightarrow> bool" where
  "literal_at lit s i = (take (length lit) (drop i s) = lit)"

text \<open>\<^verbatim>\<open>\bKW\b\<close> for a keyword \<^verbatim>\<open>KW\<close>.\<close>

definition match_word :: "string \<Rightarrow> string \<Rightarrow> nat \<Rightarrow> nat option" where
  "match_word kw s i =
     (if word_boundary s i \<and> literal_at kw s i \<and> word_boundary s (i + length kw)
      then Some (i + length kw) else None)"

text \<open>\<^verbatim>\<open>QQQ[\s\S]*?QQQ\<close> for a quote character \<^verbatim>\<open>Q\<close>: the lazy star stops at the first
  closing triple at or after the end of the opening one.\<close>

definition match_triple :: "char \<Rightarrow> string \<Rightarrow> nat \<Rightarrow> nat option" where
  "match_triple q s i =
     (if literal_at [q, q, q] s i
      then (case List.find (literal_at [q, q, q] s) [i + 3 ..< Suc (length s)] of
              None \<Rightarrow> None
            | Some j \<Rightarrow> Some (j + 3))
      else None)"

definition skip_while :: "(char \<Rightarrow> bool) \<Rightarrow> string \<Rightarrow> nat \<Rightarrow> nat" where
  "skip_while P s i = i + length (takeWhile P (drop i s))"

text \<open>\<^verbatim>\<open>\bKW\s+\w+\s*[CLOSERS]\<close>. The three classes \<^verbatim>\<open>\s\<close>, \<^verbatim>\<open>\w\<close> and the closers
  are pairwise disjoint, so giving back characters of a greedy run never helps: the
  pattern matches exactly when the longest runs do.\<close>

definition match_decl :: "string \<Rightarrow> string \<Rightarrow> string \<Rightarrow> nat \<Rightarrow> nat option" where
  "match_decl kw closers s i =
     (let p1 = i + length kw;
          p2 = skip_while is_space_char s p1;
          p3 = skip_while is_word_char s p2;
          p4 = skip_while is_space_char s p3
      in if word_boundary s i \<and> literal_at kw s i \<and> p1 < p2 \<and> p2 < p3
            \<and> p4 < length s \<and> s ! p4 \<in> set closers
         then Some (Suc p4) else None)"

function findall_from :: "(string \<Rightarrow> nat \<Rightarrow> nat option) \<Rightarrow> string \<Rightarrow> nat \<Rightarrow> string list" where
  "findall_from m s pos =
     (if length s < pos then []
      else case m s pos of
             None \<Rightarrow> findall_from m s (Suc pos)
           | Some e \<Rightarrow> take (e - pos) (drop pos s)
                        # findall_from m s (if pos < e then e else Suc pos))"
  by pat_completeness auto
termination
  by (relation "measure (\<lambda>(m, s, pos). Suc (length s) - pos)") auto

declare findall_from.simps [simp del]

definition re_findall :: "(string \<Rightarrow> nat \<Rightarrow> nat option) \<Rightarrow> string \<Rightarrow> string list" where
  "re_findall m s = findall_from m s 0"


section \<open>CodeQualityAnalyzer\<close>

definition control_statements :: "string list" where
  "control_statements =
     [''if'', ''elif'', ''else'', ''for'', ''while'', ''with'', ''try'', ''except'']"

definition calculate_cyclomatic_complexity :: "string \<Rightarrow> string \<Rightarrow> int" where
  "calculate_cyclomatic_complexity code language =
     (if str_lower language = ''python''
      then foldl (\<lambda>complexity statement.
                    complexity + int (length (re_findall (match_word statement) code)))
             1 control_statements
      else 1)"

definition calculate_doc_coverage :: "string \<Rightarrow> string \<Rightarrow> real" where
  "calculate_doc_coverage code language =
     (if str_lower language = ''python''
      then (let docstring_count =
                  length (re_findall (match_triple (CHR 0x22)) code)
                  + length (re_findall (match_triple (CHR 0x27)) code);
                func_count = length (re_findall (match_decl ''def'' ''('') code);
                class_count = length (re_findall (match_decl ''class'' '':('') code);
                total_definitions = func_count + class_count
            in if total_definitions = 0 then 1
               else min 1 (real docstring_count / real total_definitions))
      else 1 / 2)"


section \<open>EnhancedCodeStorage\<close>

record quality_metrics =
  qm_cyclomatic_complexity :: int
  qm_documentation_coverage :: real

record version_info =
  vi_version :: int
  vi_previous_version_id :: "string option"
  vi_change_log :: "string option"
  vi_updated_at :: string

text \<open>The dictionary \<^verbatim>\<open>information\<close>; the key \<^verbatim>\<open>user_rating\<close> is present exactly when
  the field is not \<open>None\<close>.\<close>

record code_pattern =
  r_type :: string
  r_name :: string
  r_language :: string
  r_code :: string
  r_explanation :: string
  r_tags :: "string list"
  r_complexity_level :: string
  r_dependencies :: "string list"
  r_quality_metrics :: quality_metrics
  r_version_info :: version_info
  r_user_rating :: "real option"
  r_id :: string

text \<open>The error kinds the specification names for the builder. The source has no
  \<^verbatim>\<open>raise\<close> statement: on arguments of the declared types every path of
  \<^verbatim>\<open>store_code_pattern\<close> reaches its \<^verbatim>\<open>return\<close>.\<close>

datatype store_error = InvalidVersionChain | InvalidRating

text \<open>\<^verbatim>\<open>store_code_pattern\<close>. The last argument is the text that
  \<^verbatim>\<open>datetime.now().isoformat()\<close> yields at the call. The line the function prints is not
  part of the value it returns and is left out.\<close>

definition store_code_pattern ::
  "string \<Rightarrow> string \<Rightarrow> string \<Rightarrow> string \<Rightarrow> string list option \<Rightarrow> string option
   \<Rightarrow> string list option \<Rightarrow> real option \<Rightarrow> int \<Rightarrow> string option \<Rightarrow> string option
   \<Rightarrow> string \<Rightarrow> store_error + code_pattern" where
  "store_code_pattern name code explanation language tags complexity_level dependencies
     user_rating version previous_version_id change_log now =
     (let cyclomatic_complexity = calculate_cyclomatic_complexity code language;
          doc_coverage = calculate_doc_coverage code language;
          level = (case complexity_level of
                     None \<Rightarrow> if cyclomatic_complexity \<le> 5 then ''simple''
                             else if cyclomatic_complexity \<le> 10 then ''intermediate''
                             else ''advanced''
                   | Some given \<Rightarrow> given)
      in Inr \<lparr> r_type = ''code_pattern'',
               r_name = name,
               r_language = language,
               r_code = code,
               r_explanation = explanation,
               r_tags = or_empty tags,
               r_complexity_level = level,
               r_dependencies = or_empty dependencies,
               r_quality_metrics =
                 \<lparr> qm_cyclomatic_complexity = cyclomatic_complexity,
                   qm_documentation_coverage = py_round doc_coverage 2 \<rparr>,
               r_version_info =
                 \<lparr> vi_version = version,
                   vi_previous_version_id = previous_version_id,
                   vi_change_log = change_log,
                   vi_updated_at = now \<rparr>,
               r_user_rating = user_rating,
               r_id = str_replace_char (CHR '' '') (CHR ''_'') (str_lower name)
                        @ ''_'' @ str_int version \<rparr>)"

text \<open>\<^verbatim>\<open>find_similar_code\<close>. Its conditions are Python truth tests: \<^verbatim>\<open>None\<close>, the empty
  text, the number zero and the empty list are falsy. The texts that an f-string prints
  for a float and for a list of strings are parameters, \<open>fmt_float\<close> and \<open>fmt_list\<close>.\<close>

definition truthy_str :: "string option \<Rightarrow> bool" where
  "truthy_str x = (case x of None \<Rightarrow> False | Some s \<Rightarrow> s \<noteq> [])"

definition truthy_float :: "real option \<Rightarrow> bool" where
  "truthy_float x = (case x of None \<Rightarrow> False | Some r \<Rightarrow> r \<noteq> 0)"

definition truthy_list :: "'a list option \<Rightarrow> bool" where
  "truthy_list x = (case x of None \<Rightarrow> False | Some ys \<Rightarrow> ys \<noteq> [])"

definition build_filters ::
  "(real \<Rightarrow> string) \<Rightarrow> (string list \<Rightarrow> string) \<Rightarrow> string option \<Rightarrow> string option
   \<Rightarrow> real option \<Rightarrow> string list option \<Rightarrow> string list" where
  "build_filters fmt_float fmt_list language complexity_level min_rating required_tags =
     (if truthy_str language then [''language='' @ [CHR 0x27] @ the language @ [CHR 0x27]] else [])
     @ (if truthy_str complexity_level
        then [''complexity_level='' @ [CHR 0x27] @ the complexity_level @ [CHR 0x27]] else [])
     @ (if truthy_float min_rating then [''user_rating>='' @ fmt_float (the min_rating)] else [])
     @ (if truthy_list required_tags then [''tags include '' @ fmt_list (the required_tags)] else [])"

text \<open>The value is the printed line together with the returned list, which is always
  empty.\<close>

definition find_similar_code ::
  "(real \<Rightarrow> string) \<Rightarrow> (string list \<Rightarrow> string) \<Rightarrow> string \<Rightarrow> string option \<Rightarrow> string option
   \<Rightarrow> real option \<Rightarrow> string list option \<Rightarrow> string \<times> code_pattern list" where
  "find_similar_code fmt_float fmt_list query language complexity_level min_rating required_tags =
     (let filters = build_filters fmt_float fmt_list language complexity_level min_rating
                      required_tags;
          filter_str = str_join '' AND '' filters
      in if filter_str \<noteq> []
         then (''Would search Qdrant for: '' @ [CHR 0x27] @ query @ [CHR 0x27]
                 @ '' WITH FILTERS: '' @ filter_str, [])
         else (''Would search Qdrant for: '' @ [CHR 0x27] @ query @ [CHR 0x27], []))"


section \<open>Notions of the specification\<close>

text \<open>A keyword occurs as a whole word at an index when its characters stand there and
  neither the character before nor the character after is a word character.\<close>

definition whole_word_at :: "string \<Rightarrow> string \<Rightarrow> nat \<Rightarrow> bool" where
  "whole_word_at kw s i =
     (literal_at kw s i \<and> \<not> (0 < i \<and> word_at s (i - 1)) \<and> \<not> word_at s (i + length kw))"

text \<open>The number of whole-word occurrences: the number of indices of the text at which
  one starts.\<close>

definition whole_word_occurrences :: "string \<Rightarrow> string \<Rightarrow> nat" where
  "whole_word_occurrences kw s = length (filter (whole_word_at kw s) [0 ..< Suc (length s)])"

definition is_keyword :: "string \<Rightarrow> bool" where
  "is_keyword kw = (kw \<noteq> [] \<and> list_all is_word_char kw)"






text \<open>The docstrings of a text: the triple-quoted spans of either quote style, taken
  from left to right without overlap.\<close>

definition docstring_count :: "string \<Rightarrow> nat" where
  "docstring_count code
     = length (re_findall (match_triple (CHR 0x22)) code)
       + length (re_findall (match_triple (CHR 0x27)) code)"





section \<open>Scanning and counting\<close>

lemma upt_split3:
  assumes "i < j" and "j \<le> n"
  shows "[i ..< n] = i # [Suc i ..< j] @ [j ..< n]"
proof -
  have e: "j + (n - j) = n" using assms(2) by arith
  have "[Suc i ..< j + (n - j)] = [Suc i ..< j] @ [j ..< j + (n - j)]"
    by (rule upt_add_eq_append) (use assms(1) in arith)
  then have "[Suc i ..< n] = [Suc i ..< j] @ [j ..< n]" unfolding e .
  moreover from assms have "[i ..< n] = i # [Suc i ..< n]"
    by (intro upt_conv_Cons) arith
  ultimately show ?thesis by simp
qed

text \<open>When every match is non-empty and no match starts inside another one, the scan
  finds as many matches as there are indices at which the pattern matches.\<close>

lemma findall_from_count:
  assumes adv: "\<And>i e. m s i = Some e \<Longrightarrow> i < e \<and> e \<le> Suc (length s)"
    and apart: "\<And>i e j. m s i = Some e \<Longrightarrow> i < j \<Longrightarrow> j < e \<Longrightarrow> m s j = None"
  shows "length (findall_from m s pos)
           = length (filter (\<lambda>i. m s i \<noteq> None) [pos ..< Suc (length s)])"
proof (induction "Suc (length s) - pos" arbitrary: pos rule: less_induct)
  case less
  show ?case
  proof (cases "length s < pos")
    case True
    then show ?thesis by (simp add: findall_from.simps)
  next
    case inside: False
    show ?thesis
    proof (cases "m s pos")
      case None
      have "length (findall_from m s pos) = length (findall_from m s (Suc pos))"
        using inside None by (subst findall_from.simps) simp
      also have "\<dots> = length (filter (\<lambda>i. m s i \<noteq> None) [Suc pos ..< Suc (length s)])"
        using inside by (intro less) arith
      also have "\<dots> = length (filter (\<lambda>i. m s i \<noteq> None) [pos ..< Suc (length s)])"
      proof -
        from inside have "[pos ..< Suc (length s)] = pos # [Suc pos ..< Suc (length s)]"
          by (intro upt_conv_Cons) arith
        with None show ?thesis by simp
      qed
      finally show ?thesis .
    next
      case (Some e)
      from adv [OF Some] have lt: "pos < e" and le: "e \<le> Suc (length s)" by simp_all
      have none: "filter (\<lambda>i. m s i \<noteq> None) [Suc pos ..< e] = []"
        using apart [OF Some] by (auto simp: filter_empty_conv)
      have split: "[pos ..< Suc (length s)] = pos # [Suc pos ..< e] @ [e ..< Suc (length s)]"
        using lt le by (rule upt_split3)
      have "length (findall_from m s pos) = Suc (length (findall_from m s e))"
        using inside Some lt by (subst findall_from.simps) simp
      also have "length (findall_from m s e)
                   = length (filter (\<lambda>i. m s i \<noteq> None) [e ..< Suc (length s)])"
        using inside lt by (intro less) arith
      also have "Suc (length (filter (\<lambda>i. m s i \<noteq> None) [e ..< Suc (length s)]))
                   = length (filter (\<lambda>i. m s i \<noteq> None) [pos ..< Suc (length s)])"
        unfolding split using Some none by (simp del: upt_Suc)
      finally show ?thesis by simp
    qed
  qed
qed

lemma literal_at_bound:
  assumes "literal_at kw s i" and "kw \<noteq> []"
  shows "i + length kw \<le> length s"
proof -
  from assms(1) have "length (take (length kw) (drop i s)) = length kw"
    by (simp add: literal_at_def)
  with assms(2) show ?thesis by (cases "i \<le> length s") auto
qed

lemma literal_at_nth:
  assumes "literal_at kw s i" and "k < length kw"
  shows "s ! (i + k) = kw ! k"
proof -
  from assms(1) have eq: "take (length kw) (drop i s) = kw" by (simp add: literal_at_def)
  from assms have "kw \<noteq> []" by auto
  with assms(1) have b: "i + length kw \<le> length s" by (rule literal_at_bound)
  have "kw ! k = take (length kw) (drop i s) ! k" by (simp add: eq)
  also have "\<dots> = s ! (i + k)" using assms(2) b by simp
  finally show ?thesis by simp
qed

lemma keyword_word_at:
  assumes "is_keyword kw" and "literal_at kw s i" and "k < length kw"
  shows "word_at s (i + k)"
proof -
  from assms(1) have ne: "kw \<noteq> []" and all: "list_all is_word_char kw"
    by (simp_all add: is_keyword_def)
  from assms(2) ne have "i + length kw \<le> length s" by (rule literal_at_bound)
  moreover from all assms(3) have "is_word_char (kw ! k)" by (simp add: list_all_length)
  ultimately show ?thesis using literal_at_nth [OF assms(2,3)] assms(3)
    by (simp add: word_at_def)
qed

text \<open>For a keyword made of word characters, \<^verbatim>\<open>\b\<close> on both sides says that the
  occurrence is a whole word.\<close>

lemma match_word_whole_word:
  assumes "is_keyword kw"
  shows "match_word kw s i = (if whole_word_at kw s i then Some (i + length kw) else None)"
proof (cases "literal_at kw s i")
  case False
  then show ?thesis by (simp add: match_word_def whole_word_at_def)
next
  case True
  from assms have len: "0 < length kw" by (simp add: is_keyword_def)
  from keyword_word_at [OF assms True, of 0] len have first: "word_at s i" by simp
  from keyword_word_at [OF assms True, of "length kw - 1"] len
  have last: "word_at s (i + length kw - 1)" by simp
  from first last True len show ?thesis
    by (auto simp: match_word_def whole_word_at_def word_boundary_def)
qed

lemma whole_word_no_overlap:
  assumes "is_keyword kw" and "whole_word_at kw s i" and "i < j" and "j < i + length kw"
  shows "\<not> whole_word_at kw s j"
proof
  assume "whole_word_at kw s j"
  then have "\<not> (0 < j \<and> word_at s (j - 1))" by (simp add: whole_word_at_def)
  moreover from assms(2) have "literal_at kw s i" by (simp add: whole_word_at_def)
  with assms(1) have "word_at s (i + (j - 1 - i))"
    by (rule keyword_word_at) (use assms(3,4) in arith)
  with assms(3) have "word_at s (j - 1)" by simp
  ultimately show False using assms(3) by simp
qed

lemma re_findall_word_count:
  assumes "is_keyword kw"
  shows "length (re_findall (match_word kw) s) = whole_word_occurrences kw s"
proof -
  have m: "match_word kw s i \<noteq> None \<longleftrightarrow> whole_word_at kw s i" for i
    by (simp add: match_word_whole_word [OF assms])
  have "length (findall_from (match_word kw) s 0)
          = length (filter (\<lambda>i. match_word kw s i \<noteq> None) [0 ..< Suc (length s)])"
  proof (rule findall_from_count)
    fix i e assume "match_word kw s i = Some e"
    then have w: "whole_word_at kw s i" and e: "e = i + length kw"
      by (simp_all add: match_word_whole_word [OF assms] split: if_splits)
    from w have "literal_at kw s i" by (simp add: whole_word_at_def)
    moreover from assms have "kw \<noteq> []" by (simp add: is_keyword_def)
    ultimately have "i + length kw \<le> length s" by (rule literal_at_bound)
    with e \<open>kw \<noteq> []\<close> show "i < e \<and> e \<le> Suc (length s)" by simp
  next
    fix i e j assume "match_word kw s i = Some e" and "i < j" and "j < e"
    then have w: "whole_word_at kw s i" and "j < i + length kw"
      by (simp_all add: match_word_whole_word [OF assms] split: if_splits)
    with assms \<open>i < j\<close> have "\<not> whole_word_at kw s j" by (intro whole_word_no_overlap)
    then show "match_word kw s j = None" by (simp add: match_word_whole_word [OF assms])
  qed
  moreover have "(\<lambda>i. match_word kw s i \<noteq> None) = whole_word_at kw s"
    by (rule ext) (rule m)
  ultimately show ?thesis by (simp only: re_findall_def whole_word_occurrences_def)
qed

lemma foldl_plus_sum_list:
  "foldl (\<lambda>acc x. acc + f x) a xs = (a::int) + sum_list (map f xs)"
  by (induction xs arbitrary: a) simp_all

lemma control_statements_keywords: "list_all is_keyword control_statements"
  by code_simp

lemma python_complexity_sum:
  assumes py: "str_lower language = ''python''"
  shows "calculate_cyclomatic_complexity code language
           = 1 + (\<Sum>kw\<leftarrow>control_statements. int (whole_word_occurrences kw code))"
proof -
  have "map (\<lambda>kw. int (length (re_findall (match_word kw) code))) control_statements
          = map (\<lambda>kw. int (whole_word_occurrences kw code)) control_statements"
    using control_statements_keywords
    by (intro map_cong refl) (simp add: list_all_iff re_findall_word_count)
  then have "(\<Sum>kw\<leftarrow>control_statements. int (length (re_findall (match_word kw) code)))
               = (\<Sum>kw\<leftarrow>control_statements. int (whole_word_occurrences kw code))"
    by (rule arg_cong)
  with py show ?thesis
    by (simp add: calculate_cyclomatic_complexity_def foldl_plus_sum_list)
qed


section \<open>Declarations: the greedy matcher and the definition sites\<close>






















section \<open>Rounding\<close>




lemma round_half_even_bounds:
  assumes "of_int lo \<le> y" and "y \<le> of_int hi"
  shows "lo \<le> round_half_even y \<and> round_half_even y \<le> hi"
proof -
  from assms(1) have lo: "lo \<le> \<lfloor>y\<rfloor>" by (simp add: le_floor_iff)
  from assms(2) have hi: "\<lfloor>y\<rfloor> \<le> hi" by (simp add: floor_le_iff)
  have up: "\<lfloor>y\<rfloor> + 1 \<le> hi" if "of_int \<lfloor>y\<rfloor> < y"
  proof -
    from that assms(2) have "of_int \<lfloor>y\<rfloor> < (of_int hi :: real)" by simp
    then show ?thesis by simp
  qed
  show ?thesis
    using lo hi up by (auto simp: round_half_even_def Let_def)
qed

lemma py_round_2_unit:
  assumes "0 \<le> x" and "x \<le> 1"
  shows "0 \<le> py_round x 2 \<and> py_round x 2 \<le> 1"
proof -
  from assms have "of_int 0 \<le> x * 100" and "x * 100 \<le> of_int 100" by simp_all
  then have "0 \<le> round_half_even (x * 100) \<and> round_half_even (x * 100) \<le> 100"
    by (rule round_half_even_bounds)
  then show ?thesis by (simp add: py_round_def)
qed




section \<open>The ranges of the two metrics\<close>

lemma complexity_at_least_one: "1 \<le> calculate_cyclomatic_complexity code language"
proof -
  have "0 \<le> (\<Sum>kw\<leftarrow>control_statements. int (length (re_findall (match_word kw) code)))"
    by (rule sum_list_nonneg) auto
  then show ?thesis
    by (simp add: calculate_cyclomatic_complexity_def foldl_plus_sum_list)
qed

lemma doc_coverage_unit:
  "0 \<le> calculate_doc_coverage code language \<and> calculate_doc_coverage code language \<le> 1"
  by (simp add: calculate_doc_coverage_def Let_def)


section \<open>The builder returns on every input\<close>

lemma store_code_pattern_returns:
  "\<exists>r. store_code_pattern name code explanation language tags complexity_level dependencies
         user_rating version previous_version_id change_log now = Inr r"
  by (simp add: store_code_pattern_def Let_def)

lemma binary_search_slug:
  "str_replace_char (CHR '' '') (CHR ''_'') (str_lower ''Binary search implementation'')
     @ ''_'' @ str_int 1 = ''binary_search_implementation_1''"
  by code_simp

lemma build_filters_scenario:
  "str_join '' AND '' (build_filters fmt_float fmt_list (Some ''python'') None (Some 4)
       (Some [''algorithm'']))
     = ''language='python' AND user_rating>='' @ fmt_float 4 @ '' AND tags include ''
       @ fmt_list [''algorithm'']"
  by (simp add: build_filters_def truthy_str_def truthy_float_def truthy_list_def)

text \<open>A clause is emitted exactly when its parameter passes the truth test.\<close>

lemma build_filters_length:
  "length (build_filters fmt_float fmt_list language complexity_level min_rating required_tags)
     = (if truthy_str language then 1 else 0) + (if truthy_str complexity_level then 1 else 0)
       + (if truthy_float min_rating then 1 else 0) + (if truthy_list required_tags then 1 else 0)"
  by (simp add: build_filters_def)


section \<open>The claims\<close>

subsection \<open>C1: the version chain\<close>

text \<open>
  C1, as stated, fails: \<^verbatim>\<open>store_code_pattern\<close> does not look at the version chain. A
  call with version 1 and a non-null \<^verbatim>\<open>previous_version_id\<close> returns a record that
  carries both, and so does a call with version 2 and no predecessor at all; neither
  fails with \<open>InvalidVersionChain\<close>.
\<close>

theorem version_chain_not_validated_counterexample:
  "map_sum id (\<lambda>r. (vi_version (r_version_info r), vi_previous_version_id (r_version_info r)))
     (store_code_pattern ''n'' ''pass'' ''e'' ''python'' None None None None 1 (Some ''other_7'')
        None ''t'')
     = Inr (1, Some ''other_7'')
   \<and> store_code_pattern ''n'' ''pass'' ''e'' ''python'' None None None None 1 (Some ''other_7'')
        None ''t'' \<noteq> Inl InvalidVersionChain
   \<and> map_sum id (\<lambda>r. (vi_version (r_version_info r), vi_previous_version_id (r_version_info r)))
     (store_code_pattern ''n'' ''pass'' ''e'' ''python'' None None None None 2 None None ''t'')
     = Inr (2, None)
   \<and> store_code_pattern ''n'' ''pass'' ''e'' ''python'' None None None None 2 None None ''t''
       \<noteq> Inl InvalidVersionChain"
  by (simp add: store_code_pattern_def Let_def)

text \<open>
  C1, amended: for every version and every \<^verbatim>\<open>previous_version_id\<close>, null or not,
  \<^verbatim>\<open>store_code_pattern\<close> succeeds and emits a record whose version information holds the
  version and the predecessor id exactly as they were supplied. In particular a version 2
  that references an existing version-1 record succeeds.
\<close>

theorem version_chain_recorded_unchecked:
  "\<exists>r. store_code_pattern name code explanation language tags complexity_level dependencies
          user_rating version previous_version_id change_log now = Inr r
       \<and> vi_version (r_version_info r) = version
       \<and> vi_previous_version_id (r_version_info r) = previous_version_id"
  by (simp add: store_code_pattern_def Let_def)

text \<open>The two calls of the source's \<^verbatim>\<open>main\<close>: version 1, then version 2 naming the id of
  version 1.\<close>

theorem version_chain_recorded_unchecked_witness:
  "(\<exists>r1. store_code_pattern ''Binary search implementation'' ''pass'' ''e'' ''python'' None None
            None None 1 None None ''t1'' = Inr r1
         \<and> r_id r1 = ''binary_search_implementation_1''
         \<and> vi_version (r_version_info r1) = 1
         \<and> vi_previous_version_id (r_version_info r1) = None)
   \<and> (\<exists>r2. store_code_pattern ''Binary search implementation'' ''pass'' ''e'' ''python'' None None
            None None 2 (Some ''binary_search_implementation_1'') (Some ''faster'') ''t2'' = Inr r2
         \<and> vi_version (r_version_info r2) = 2
         \<and> vi_previous_version_id (r_version_info r2) = Some ''binary_search_implementation_1'')"
proof
  from version_chain_recorded_unchecked [of "''Binary search implementation''" "''pass''" "''e''"
      "''python''" None None None None 1 None None "''t1''"]
  obtain r1 where r1: "store_code_pattern ''Binary search implementation'' ''pass'' ''e''
        ''python'' None None None None 1 None None ''t1'' = Inr r1"
    and v1: "vi_version (r_version_info r1) = 1"
      "vi_previous_version_id (r_version_info r1) = None"
    by blast
  from r1 have "r_id r1 = ''binary_search_implementation_1''"
    unfolding binary_search_slug [symmetric] by (auto simp: store_code_pattern_def Let_def)
  with r1 v1 show "\<exists>r1. store_code_pattern ''Binary search implementation'' ''pass'' ''e''
            ''python'' None None None None 1 None None ''t1'' = Inr r1
         \<and> r_id r1 = ''binary_search_implementation_1''
         \<and> vi_version (r_version_info r1) = 1
         \<and> vi_previous_version_id (r_version_info r1) = None"
    by blast
  from version_chain_recorded_unchecked [of "''Binary search implementation''" "''pass''" "''e''"
      "''python''" None None None None 2 "Some ''binary_search_implementation_1''"
      "Some ''faster''" "''t2''"]
  show "\<exists>r2. store_code_pattern ''Binary search implementation'' ''pass'' ''e'' ''python'' None None
            None None 2 (Some ''binary_search_implementation_1'') (Some ''faster'') ''t2'' = Inr r2
         \<and> vi_version (r_version_info r2) = 2
         \<and> vi_previous_version_id (r_version_info r2) = Some ''binary_search_implementation_1''"
    by blast
qed


subsection \<open>C2: the user rating\<close>

text \<open>
  C2, as stated, fails: the ratings 5.1 and -0.1 are accepted and stored; the call does
  not fail with \<open>InvalidRating\<close>.
\<close>

theorem rating_not_validated_counterexample:
  "map_sum id r_user_rating
     (store_code_pattern ''n'' ''pass'' ''e'' ''python'' None None None (Some (51 / 10)) 1 None
        None ''t'') = Inr (Some (51 / 10))
   \<and> store_code_pattern ''n'' ''pass'' ''e'' ''python'' None None None (Some (51 / 10)) 1 None
        None ''t'' \<noteq> Inl InvalidRating
   \<and> map_sum id r_user_rating
     (store_code_pattern ''n'' ''pass'' ''e'' ''python'' None None None (Some (- 1 / 10)) 1 None
        None ''t'') = Inr (Some (- 1 / 10))
   \<and> store_code_pattern ''n'' ''pass'' ''e'' ''python'' None None None (Some (- 1 / 10)) 1 None
        None ''t'' \<noteq> Inl InvalidRating"
  by (simp add: store_code_pattern_def Let_def)

text \<open>
  C2, amended: for every supplied \<^verbatim>\<open>user_rating\<close>, inside the interval from 0.0 to 5.0
  (the bounds included) or outside it, \<^verbatim>\<open>store_code_pattern\<close> succeeds and the emitted
  record stores that rating unchanged.
\<close>

theorem supplied_rating_stored:
  "\<exists>r. store_code_pattern name code explanation language tags complexity_level dependencies
          (Some rating) version previous_version_id change_log now = Inr r
       \<and> r_user_rating r = Some rating"
  by (simp add: store_code_pattern_def Let_def)

text \<open>The bounds 0.0 and 5.0, and the rating 4.8 of the source's \<^verbatim>\<open>main\<close>.\<close>

theorem supplied_rating_stored_witness:
  "(\<exists>r. store_code_pattern ''n'' ''pass'' ''e'' ''python'' None None None (Some 0) 1 None None ''t''
           = Inr r \<and> r_user_rating r = Some 0)
   \<and> (\<exists>r. store_code_pattern ''n'' ''pass'' ''e'' ''python'' None None None (Some 5) 1 None None ''t''
           = Inr r \<and> r_user_rating r = Some 5)
   \<and> (\<exists>r. store_code_pattern ''n'' ''pass'' ''e'' ''python'' None None None (Some (24 / 5)) 1 None
           None ''t'' = Inr r \<and> r_user_rating r = Some (24 / 5))"
  using supplied_rating_stored [of "''n''" "''pass''" "''e''" "''python''" None None None 0 1 None
      None "''t''"]
    supplied_rating_stored [of "''n''" "''pass''" "''e''" "''python''" None None None 5 1 None
      None "''t''"]
    supplied_rating_stored [of "''n''" "''pass''" "''e''" "''python''" None None None "24 / 5" 1
      None None "''t''"]
  by blast


subsection \<open>C3: the retrieval filter\<close>

text \<open>
  C3 says that the clause \<^verbatim>\<open>user_rating>=min_rating\<close> is present whenever
  \<^verbatim>\<open>min_rating\<close> is supplied, the rating 0.0 included. The source tests
  \<^verbatim>\<open>if min_rating:\<close>, and 0.0 is falsy: with \<^verbatim>\<open>min_rating = 0.0\<close> the filters are those
  of a call without \<^verbatim>\<open>min_rating\<close>, and when nothing else is supplied the printed line
  names no filter at all.
\<close>

theorem zero_min_rating_clause_dropped:
  "build_filters fmt_float fmt_list language complexity_level (Some 0) required_tags
     = build_filters fmt_float fmt_list language complexity_level None required_tags
   \<and> build_filters fmt_float fmt_list None None (Some 0) None = []
   \<and> find_similar_code fmt_float fmt_list query None None (Some 0) None
       = (''Would search Qdrant for: '' @ [CHR 0x27] @ query @ [CHR 0x27], [])"
  by (simp add: find_similar_code_def build_filters_def truthy_str_def truthy_float_def
      truthy_list_def)


subsection \<open>C4: cyclomatic complexity\<close>




subsection \<open>C5: the complexity level\<close>

text \<open>
  C5: a non-null \<^verbatim>\<open>complexity_level\<close> argument is stored as it is, whatever the score;
  without one, a score of at most 5 gives \<^verbatim>\<open>simple\<close>, a score from 6 to 10 gives
  \<^verbatim>\<open>intermediate\<close>, and a score above 10 gives \<^verbatim>\<open>advanced\<close>. The score is the
  cyclomatic complexity the record stores.
\<close>

theorem complexity_classifier:
  "\<exists>r. store_code_pattern name code explanation language tags complexity_level dependencies
          user_rating version previous_version_id change_log now = Inr r
       \<and> qm_cyclomatic_complexity (r_quality_metrics r) = calculate_cyclomatic_complexity code language
       \<and> (\<forall>given. complexity_level = Some given \<longrightarrow> r_complexity_level r = given)
       \<and> (complexity_level = None \<and> calculate_cyclomatic_complexity code language \<le> 5
            \<longrightarrow> r_complexity_level r = ''simple'')
       \<and> (complexity_level = None \<and> 6 \<le> calculate_cyclomatic_complexity code language
            \<and> calculate_cyclomatic_complexity code language \<le> 10
            \<longrightarrow> r_complexity_level r = ''intermediate'')
       \<and> (complexity_level = None \<and> 10 < calculate_cyclomatic_complexity code language
            \<longrightarrow> r_complexity_level r = ''advanced'')"
  by (simp add: store_code_pattern_def Let_def)

text \<open>The scores 5, 6, 10 and 11 without an override, and the score 11 with one.\<close>

theorem complexity_classifier_witness:
  "(\<exists>r. store_code_pattern ''n'' ''if if if if'' ''e'' ''python'' None None None None 1 None None ''t'' = Inr r
        \<and> qm_cyclomatic_complexity (r_quality_metrics r) = 5 \<and> r_complexity_level r = ''simple'')
   \<and> (\<exists>r. store_code_pattern ''n'' ''if if if if if'' ''e'' ''python'' None None None None 1 None None ''t'' = Inr r
        \<and> qm_cyclomatic_complexity (r_quality_metrics r) = 6 \<and> r_complexity_level r = ''intermediate'')
   \<and> (\<exists>r. store_code_pattern ''n'' ''if if if if if if if if if'' ''e'' ''python'' None None None None 1 None None ''t'' = Inr r
        \<and> qm_cyclomatic_complexity (r_quality_metrics r) = 10 \<and> r_complexity_level r = ''intermediate'')
   \<and> (\<exists>r. store_code_pattern ''n'' ''if if if if if if if if if if'' ''e'' ''python'' None None None None 1 None None ''t'' = Inr r
        \<and> qm_cyclomatic_complexity (r_quality_metrics r) = 11 \<and> r_complexity_level r = ''advanced'')
   \<and> (\<exists>r. store_code_pattern ''n'' ''if if if if if if if if if if'' ''e'' ''python'' None (Some ''simple'') None None 1 None None ''t'' = Inr r
        \<and> qm_cyclomatic_complexity (r_quality_metrics r) = 11 \<and> r_complexity_level r = ''simple'')"
proof -
  have c5: "calculate_cyclomatic_complexity ''if if if if'' ''python'' = 5" by code_simp
  have c6: "calculate_cyclomatic_complexity ''if if if if if'' ''python'' = 6" by code_simp
  have c10: "calculate_cyclomatic_complexity ''if if if if if if if if if'' ''python'' = 10"
    by code_simp
  have c11: "calculate_cyclomatic_complexity ''if if if if if if if if if if'' ''python'' = 11"
    by code_simp
  note inst = complexity_classifier [where name = "''n''" and explanation = "''e''"
      and language = "''python''" and tags = None and dependencies = None and user_rating = None
      and version = 1 and previous_version_id = None and change_log = None and now = "''t''"]
  from inst [of "''if if if if''" None] c5
  have a: "\<exists>r. store_code_pattern ''n'' ''if if if if'' ''e'' ''python'' None None None None 1 None None ''t'' = Inr r
        \<and> qm_cyclomatic_complexity (r_quality_metrics r) = 5 \<and> r_complexity_level r = ''simple''"
    by simp
  from inst [of "''if if if if if''" None] c6
  have b: "\<exists>r. store_code_pattern ''n'' ''if if if if if'' ''e'' ''python'' None None None None 1 None None ''t'' = Inr r
        \<and> qm_cyclomatic_complexity (r_quality_metrics r) = 6 \<and> r_complexity_level r = ''intermediate''"
    by simp
  from inst [of "''if if if if if if if if if''" None] c10
  have c: "\<exists>r. store_code_pattern ''n'' ''if if if if if if if if if'' ''e'' ''python'' None None None None 1 None None ''t'' = Inr r
        \<and> qm_cyclomatic_complexity (r_quality_metrics r) = 10 \<and> r_complexity_level r = ''intermediate''"
    by simp
  from inst [of "''if if if if if if if if if if''" None] c11
  have d: "\<exists>r. store_code_pattern ''n'' ''if if if if if if if if if if'' ''e'' ''python'' None None None None 1 None None ''t'' = Inr r
        \<and> qm_cyclomatic_complexity (r_quality_metrics r) = 11 \<and> r_complexity_level r = ''advanced''"
    by simp
  from inst [of "''if if if if if if if if if if''" "Some ''simple''"] c11
  have e: "\<exists>r. store_code_pattern ''n'' ''if if if if if if if if if if'' ''e'' ''python'' None (Some ''simple'') None None 1 None None ''t'' = Inr r
        \<and> qm_cyclomatic_complexity (r_quality_metrics r) = 11 \<and> r_complexity_level r = ''simple''"
    by simp
  from a b c d e show ?thesis by blast
qed


subsection \<open>C6: documentation coverage\<close>




subsection \<open>C7: the identifier\<close>




subsection \<open>C8: the ranges of the quality metrics\<close>

text \<open>
  C8: for every text and every language tag the cyclomatic complexity is at least 1 and
  the documentation coverage lies between 0 and 1, for the analyzer's values and for the
  values the record stores; a \<^verbatim>\<open>python\<close> text in which none of the eight keywords occurs
  as a whole word has complexity exactly 1.
\<close>

theorem quality_metrics_invariant:
  "1 \<le> calculate_cyclomatic_complexity code language
   \<and> 0 \<le> calculate_doc_coverage code language \<and> calculate_doc_coverage code language \<le> 1
   \<and> (str_lower language = ''python''
        \<and> list_all (\<lambda>kw. whole_word_occurrences kw code = 0)
             [''if'', ''elif'', ''else'', ''for'', ''while'', ''with'', ''try'', ''except'']
        \<longrightarrow> calculate_cyclomatic_complexity code language = 1)
   \<and> (\<exists>r. store_code_pattern name code explanation language tags complexity_level dependencies
             user_rating version previous_version_id change_log now = Inr r
          \<and> 1 \<le> qm_cyclomatic_complexity (r_quality_metrics r)
          \<and> 0 \<le> qm_documentation_coverage (r_quality_metrics r)
          \<and> qm_documentation_coverage (r_quality_metrics r) \<le> 1)"
proof (intro conjI impI)
  show "1 \<le> calculate_cyclomatic_complexity code language" by (rule complexity_at_least_one)
  show "0 \<le> calculate_doc_coverage code language" by (simp add: doc_coverage_unit)
  show "calculate_doc_coverage code language \<le> 1" by (simp add: doc_coverage_unit)
  show "calculate_cyclomatic_complexity code language = 1"
    if "str_lower language = ''python''
        \<and> list_all (\<lambda>kw. whole_word_occurrences kw code = 0)
             [''if'', ''elif'', ''else'', ''for'', ''while'', ''with'', ''try'', ''except'']"
    using that python_complexity_sum [of language code]
    by (simp add: control_statements_def)
  from doc_coverage_unit [of code language]
  have "0 \<le> py_round (calculate_doc_coverage code language) 2
        \<and> py_round (calculate_doc_coverage code language) 2 \<le> 1"
    by (intro py_round_2_unit) simp_all
  with complexity_at_least_one [of code language]
  show "\<exists>r. store_code_pattern name code explanation language tags complexity_level dependencies
             user_rating version previous_version_id change_log now = Inr r
          \<and> 1 \<le> qm_cyclomatic_complexity (r_quality_metrics r)
          \<and> 0 \<le> qm_documentation_coverage (r_quality_metrics r)
          \<and> qm_documentation_coverage (r_quality_metrics r) \<le> 1"
    by (simp add: store_code_pattern_def Let_def)
qed

theorem quality_metrics_invariant_witness:
  "str_lower ''python'' = ''python''
   \<and> list_all (\<lambda>kw. whole_word_occurrences kw ''x = 1'' = 0)
        [''if'', ''elif'', ''else'', ''for'', ''while'', ''with'', ''try'', ''except'']
   \<and> calculate_cyclomatic_complexity ''x = 1'' ''python'' = 1
   \<and> 0 \<le> calculate_doc_coverage ''x = 1'' ''python''
   \<and> calculate_doc_coverage ''x = 1'' ''python'' \<le> 1"
proof -
  have l: "str_lower ''python'' = ''python''" by code_simp
  have z: "list_all (\<lambda>kw. whole_word_occurrences kw ''x = 1'' = 0)
        [''if'', ''elif'', ''else'', ''for'', ''while'', ''with'', ''try'', ''except'']"
    by code_simp
  from quality_metrics_invariant [of "''x = 1''" "''python''" "''n''" "''e''" None None None None
      1 None None "''t''"] l z
  show ?thesis by blast
qed


subsection \<open>C9: the stored coverage is rounded\<close>




subsection \<open>C10: absent tags and dependencies\<close>

text \<open>
  C10: when \<^verbatim>\<open>tags\<close> is \<^verbatim>\<open>None\<close> the emitted record's tags are the empty list, and when
  \<^verbatim>\<open>dependencies\<close> is \<^verbatim>\<open>None\<close> its dependencies are the empty list; in every case the
  two fields are lists, the supplied one or the empty one.
\<close>

theorem absent_lists_stored_empty:
  "(\<exists>r. store_code_pattern name code explanation language None complexity_level dependencies
           user_rating version previous_version_id change_log now = Inr r
        \<and> r_tags r = [])
   \<and> (\<exists>r. store_code_pattern name code explanation language tags complexity_level None
           user_rating version previous_version_id change_log now = Inr r
        \<and> r_dependencies r = [])
   \<and> (\<exists>r. store_code_pattern name code explanation language tags complexity_level dependencies
           user_rating version previous_version_id change_log now = Inr r
        \<and> r_tags r = (case tags of None \<Rightarrow> [] | Some ts \<Rightarrow> ts)
        \<and> r_dependencies r = (case dependencies of None \<Rightarrow> [] | Some ds \<Rightarrow> ds))"
  by (simp add: store_code_pattern_def Let_def or_empty_def split: option.splits)

theorem absent_lists_stored_empty_witness:
  "(\<exists>r. store_code_pattern ''n'' ''pass'' ''e'' ''python'' None None (Some [''numpy'']) None 1 None None ''t'' = Inr r
        \<and> r_tags r = [])
   \<and> (\<exists>r. store_code_pattern ''n'' ''pass'' ''e'' ''python'' (Some [''algorithm'']) None None None 1 None None ''t'' = Inr r
        \<and> r_dependencies r = [])
   \<and> (\<exists>r. store_code_pattern ''n'' ''pass'' ''e'' ''python'' (Some [''algorithm'']) None (Some [''numpy'']) None 1 None None ''t'' = Inr r
        \<and> r_tags r = [''algorithm''] \<and> r_dependencies r = [''numpy''])"
  using absent_lists_stored_empty [of "''n''" "''pass''" "''e''" "''python''" None "Some [''numpy'']"
      None 1 None None "''t''" "Some [''algorithm'']"]
  by simp

end
